theory Spec2Isabelle
  imports Main "HOL-Library.Sublist"
begin

section \<open>Python values used by the tool\<close>

text \<open>
  A Python \<open>str\<close> is a sequence of Unicode code points. The markers the tool looks for lie
  far outside the 8-bit range of \<^typ>\<open>char\<close>, so a \<open>str\<close> is a list of code points,
  each a natural number. \<open>lit\<close> embeds an ASCII literal of the source.
\<close>

type_synonym str = "nat list"

definition lit :: "string \<Rightarrow> str" where
  "lit s = map of_char s"

text \<open>
  The values the tool builds: \<open>None\<close>, strings, lists and dict literals. A dict is the
  association list of its literal, in the order the source writes the keys.
\<close>

datatype pyval =
    PNone
  | PStr str
  | PList "pyval list"
  | PDict "(string \<times> pyval) list"

fun dict_get :: "pyval \<Rightarrow> string \<Rightarrow> pyval option" where
  "dict_get (PDict kvs) k = map_of kvs k"
| "dict_get _ k = None"

fun dict_keys :: "pyval \<Rightarrow> string list" where
  "dict_keys (PDict kvs) = map fst kvs"
| "dict_keys _ = []"

subsection \<open>String methods\<close>

text \<open>\<open>needle in hay\<close>: substring test.\<close>

fun py_in :: "str \<Rightarrow> str \<Rightarrow> bool" where
  "py_in needle [] = (needle = [])"
| "py_in needle (c # cs) = (prefix needle (c # cs) \<or> py_in needle cs)"

text \<open>
  \<open>s.replace(old, new)\<close>: every non-overlapping occurrence of \<open>old\<close>, found from the
  left, is replaced; an empty \<open>old\<close> matches before every code point and at the end.
\<close>

function py_replace :: "str \<Rightarrow> str \<Rightarrow> str \<Rightarrow> str" where
  "py_replace s old new =
     (if old = [] then new @ concat (map (\<lambda>c. c # new) s)
      else if s = [] then []
      else if prefix old s then new @ py_replace (drop (length old) s) old new
      else hd s # py_replace (tl s) old new)"
  by pat_completeness auto
termination
  by (relation "measure (\<lambda>(s, old, new). length s)") auto

declare py_replace.simps [simp del]

text \<open>
  \<open>s.split(sep)\<close> for a non-empty separator (the source passes the literal newline):
  the pieces between the non-overlapping occurrences of \<open>sep\<close>, always at least one piece.
\<close>

function py_split :: "str \<Rightarrow> str \<Rightarrow> str list" where
  "py_split s sep =
     (if s = [] then [[]]
      else if sep \<noteq> [] \<and> prefix sep s then [] # py_split (drop (length sep) s) sep
      else (case py_split (tl s) sep of
              [] \<Rightarrow> [[hd s]]
            | piece # pieces \<Rightarrow> (hd s # piece) # pieces))"
  by pat_completeness auto
termination
  by (relation "measure (\<lambda>(s, sep). length s)") auto

declare py_split.simps [simp del]

text \<open>
  \<open>str.isspace\<close> on one code point: the whitespace code points of CPython, which
  \<open>s.strip()\<close> removes from both ends.
\<close>

definition isspace :: "nat \<Rightarrow> bool" where
  "isspace c \<longleftrightarrow>
     (0x09 \<le> c \<and> c \<le> 0x0D) \<or> (0x1C \<le> c \<and> c \<le> 0x20) \<or> c = 0x85 \<or> c = 0xA0 \<or>
     c = 0x1680 \<or> (0x2000 \<le> c \<and> c \<le> 0x200A) \<or> c = 0x2028 \<or> c = 0x2029 \<or>
     c = 0x202F \<or> c = 0x205F \<or> c = 0x3000"

definition py_strip :: "str \<Rightarrow> str" where
  "py_strip s = rev (dropWhile isspace (rev (dropWhile isspace s)))"

text \<open>\<open>str(n)\<close> for the non-negative integer \<open>len(issues)\<close>: its decimal digits.\<close>

fun str_of_nat :: "nat \<Rightarrow> str" where
  "str_of_nat n = (if n < 10 then [48 + n] else str_of_nat (n div 10) @ [48 + n mod 10])"

declare str_of_nat.simps [simp del]

section \<open>The markers\<close>

text \<open>
  The one-code-point string literals of the source: the four severity markers (red, yellow,
  blue and orange circle), the light bulb of a suggestion line, and the check mark and
  cross mark of the two summary messages.
\<close>

definition red_circle :: str where "red_circle = [0x1F534]"
definition yellow_circle :: str where "yellow_circle = [0x1F7E1]"
definition blue_circle :: str where "blue_circle = [0x1F535]"
definition orange_circle :: str where "orange_circle = [0x1F7E0]"
definition light_bulb :: str where "light_bulb = [0x1F4A1]"
definition check_mark :: str where "check_mark = [0x2705]"
definition cross_mark :: str where "cross_mark = [0x274C]"

definition newline :: str where "newline = [0x0A]"

section \<open>validate\_content\_tool\<close>

text \<open>
  What \<open>subprocess.run\<close> hands back: a completed process with its return code and its
  captured, decoded standard output and standard error, or an exception when the process
  could not be started or its output not decoded.
\<close>

record completed_process =
  returncode :: int
  stdout :: str
  stderr :: str

datatype error = OSError | UnicodeDecodeError

text \<open>The condition of the loop body: the line holds one of the four severity markers.\<close>

definition has_marker :: "str \<Rightarrow> bool" where
  "has_marker line \<longleftrightarrow>
     py_in red_circle line \<or> py_in yellow_circle line \<or> py_in blue_circle line \<or>
     py_in orange_circle line"

text \<open>The chained conditional expression that names the severity.\<close>

definition severity :: "str \<Rightarrow> str" where
  "severity line =
     (if py_in red_circle line then lit ''critical''
      else if py_in yellow_circle line then lit ''high''
      else if py_in blue_circle line then lit ''medium''
      else lit ''low'')"

text \<open>The dict literal appended for line \<open>i\<close> of \<open>lines\<close>.\<close>

definition issue :: "str list \<Rightarrow> nat \<Rightarrow> str \<Rightarrow> pyval" where
  "issue lines i line = PDict
     [(''severity'', PStr (severity line)),
      (''message'', PStr (py_strip
         (py_replace (py_replace (py_replace (py_replace line red_circle [])
            yellow_circle []) blue_circle []) orange_circle []))),
      (''suggestion'',
         if i + 1 < length lines \<and> py_in light_bulb (lines ! (i + 1))
         then PStr (py_strip (py_replace (lines ! (i + 1)) light_bulb []))
         else PNone)]"

text \<open>
  The loop \<open>for i, line in enumerate(lines)\<close> threads the list \<open>issues\<close>; one iteration
  appends at most one dict.
\<close>

definition loop_body :: "str list \<Rightarrow> nat \<times> str \<Rightarrow> pyval list \<Rightarrow> pyval list" where
  "loop_body lines = (\<lambda>(i, line) issues.
     if has_marker line then issues @ [issue lines i line] else issues)"

definition extract_issues :: "str list \<Rightarrow> pyval list" where
  "extract_issues lines = fold (loop_body lines) (enumerate 0 lines) []"

text \<open>
  The function itself. \<open>content\<close> is written to a temporary file that the validator reads
  and \<open>filename\<close> is never read; what the function returns is computed from the outcome
  \<open>run\<close> of \<open>subprocess.run\<close> alone. An exception of \<open>subprocess.run\<close> leaves the function
  through the \<open>finally\<close> clause, which only removes the temporary file. Creating and
  writing the temporary file before the \<open>try\<close> and removing it in the \<open>finally\<close> clause
  are taken to succeed: an invocation in which one of them raises returns no value and
  is outside this model.
\<close>

definition validate_content_tool :: "str \<Rightarrow> str \<Rightarrow> error + completed_process \<Rightarrow> error + pyval" where
  "validate_content_tool content filename run =
     (case run of
        Inl e \<Rightarrow> Inl e
      | Inr result \<Rightarrow>
          (let output = stdout result @ stderr result in
           if returncode result = 0 then
             Inr (PDict
               [(''status'', PStr (lit ''pass'')),
                (''issues'', PList []),
                (''message'', PStr (check_mark @ lit '' No validation issues found''))])
           else
             (let lines = py_split output newline;
                  issues = extract_issues lines
              in Inr (PDict
               [(''status'', PStr (lit ''fail'')),
                (''issues'', PList issues),
                (''message'', PStr (cross_mark @ lit '' Found '' @ str_of_nat (length issues)
                    @ lit '' validation issue(s)''))]))))"

section \<open>Reading the returned value\<close>

text \<open>
  \<open>r[k]\<close> on what the function returned: a value when the function returned a dict with
  the key \<open>k\<close>, nothing when it raised or the key is missing.
\<close>

definition result_get :: "error + pyval \<Rightarrow> string \<Rightarrow> pyval option" where
  "result_get r k = (case r of Inl e \<Rightarrow> None | Inr d \<Rightarrow> dict_get d k)"

text \<open>
  The lines the loop runs over, and the indices of those that hold a severity marker, in
  increasing order: the textual report as the statements below refer to it.
\<close>

definition output_lines :: "completed_process \<Rightarrow> str list" where
  "output_lines result = py_split (stdout result @ stderr result) newline"

definition marker_lines :: "str list \<Rightarrow> nat list" where
  "marker_lines lines = filter (\<lambda>i. has_marker (lines ! i)) [0..<length lines]"

section \<open>Facts about the string methods and the loop\<close>

lemmas glyphs = red_circle_def yellow_circle_def blue_circle_def orange_circle_def
  light_bulb_def check_mark_def cross_mark_def newline_def

lemma py_in_single: "py_in [c] s \<longleftrightarrow> c \<in> set s"
  by (induction s) auto

lemma py_replace_single: "py_replace s [c] [] = filter (\<lambda>x. x \<noteq> c) s"
proof (induction s)
  case Nil
  show ?case by (simp add: py_replace.simps)
next
  case (Cons a s)
  then show ?case by (subst py_replace.simps) simp
qed

lemma set_py_strip: "set (py_strip s) \<subseteq> set s"
proof -
  have "set (py_strip s) \<subseteq> set (dropWhile isspace s)"
    unfolding py_strip_def using set_dropWhileD by fastforce
  also have "\<dots> \<subseteq> set s" using set_dropWhileD by fastforce
  finally show ?thesis .
qed

lemma lit_pass_fail: "lit ''pass'' \<noteq> lit ''fail''"
  by (simp add: lit_def)

text \<open>Rules that evaluate the model on a concrete outcome.\<close>

lemmas eval_rules = validate_content_tool_def result_get_def extract_issues_def loop_body_def
  has_marker_def issue_def severity_def py_split.simps py_replace_single str_of_nat.simps
  py_strip_def isspace_def lit_def glyphs output_lines_def marker_lines_def upt_rec

text \<open>The loop appends, in the order of the enumeration, one dict per line with a marker.\<close>

lemma fold_loop_body:
  "fold (loop_body lines) xs acc =
     acc @ map (\<lambda>(i, line). issue lines i line) (filter (\<lambda>(i, line). has_marker line) xs)"
  by (induction xs arbitrary: acc) (auto simp: loop_body_def)

lemma enumerate_nth: "enumerate 0 xs = map (\<lambda>i. (i, xs ! i)) [0..<length xs]"
  by (rule nth_equalityI) (simp_all add: nth_enumerate_eq)

lemma extract_issues_eq:
  "extract_issues lines = map (\<lambda>i. issue lines i (lines ! i)) (marker_lines lines)"
  unfolding extract_issues_def fold_loop_body enumerate_nth marker_lines_def
  by (simp add: filter_map comp_def)

lemma returned_issues:
  "returncode result \<noteq> 0 \<Longrightarrow>
   result_get (validate_content_tool content filename (Inr result)) ''issues'' =
     Some (PList (map (\<lambda>i. issue (output_lines result) i (output_lines result ! i))
                      (marker_lines (output_lines result))))"
  by (simp add: validate_content_tool_def result_get_def Let_def extract_issues_eq
      output_lines_def)

lemma marker_lines_sorted: "sorted_wrt (<) (marker_lines lines)"
  unfolding marker_lines_def by (rule sorted_wrt_filter) simp

lemma marker_lines_set:
  "set (marker_lines lines) = {i. i < length lines \<and> has_marker (lines ! i)}"
  by (auto simp: marker_lines_def)

text \<open>The \<open>k\<close>-th returned issue is the dict built at the \<open>k\<close>-th line with a marker.\<close>

lemma kth_issue:
  assumes "returncode result \<noteq> 0" and "lines = output_lines result"
    and "k < length (marker_lines lines)"
  shows "\<exists>issues. result_get (validate_content_tool content filename (Inr result)) ''issues''
            = Some (PList issues) \<and>
          length issues = length (marker_lines lines) \<and>
          issues ! k = issue lines (marker_lines lines ! k) (lines ! (marker_lines lines ! k))"
  using assms returned_issues [of result content filename] by simp

subsection \<open>The three keys of an issue\<close>

lemma issue_keys: "dict_keys (issue lines i line) = [''severity'', ''message'', ''suggestion'']"
  by (simp add: issue_def)

lemma issue_severity: "dict_get (issue lines i line) ''severity'' = Some (PStr (severity line))"
  by (simp add: issue_def)

lemma issue_message:
  "dict_get (issue lines i line) ''message'' =
     Some (PStr (py_strip (filter (\<lambda>c. [c] \<notin>
        {red_circle, yellow_circle, blue_circle, orange_circle}) line)))"
  by (simp add: issue_def glyphs py_replace_single conj_commute conj_left_commute)

lemma issue_suggestion:
  "dict_get (issue lines i line) ''suggestion'' =
     Some (if i + 1 < length lines \<and> py_in light_bulb (lines ! (i + 1))
           then PStr (py_strip (filter (\<lambda>c. [c] \<noteq> light_bulb) (lines ! (i + 1))))
           else PNone)"
  by (simp add: issue_def glyphs py_replace_single)

lemma message_without_glyphs:
  assumes "message = py_strip (filter (\<lambda>c. [c] \<notin>
        {red_circle, yellow_circle, blue_circle, orange_circle}) line)"
  shows "\<not> py_in red_circle message \<and> \<not> py_in yellow_circle message \<and>
     \<not> py_in blue_circle message \<and> \<not> py_in orange_circle message"
  using set_py_strip [of "filter (\<lambda>c. [c] \<notin>
        {red_circle, yellow_circle, blue_circle, orange_circle}) line"]
  unfolding assms glyphs py_in_single by auto

subsection \<open>Four outputs, split into lines\<close>

lemma four_lines:
  "output_lines \<lparr>returncode = 1,
      stdout = red_circle @ lit '' a'' @ newline @ yellow_circle @ lit '' b'' @ newline,
      stderr = blue_circle @ lit '' c'' @ newline @ orange_circle @ lit '' d''\<rparr>
   = [red_circle @ lit '' a'', yellow_circle @ lit '' b'', blue_circle @ lit '' c'',
      orange_circle @ lit '' d'']"
  by (simp add: output_lines_def py_split.simps lit_def glyphs)

lemma four_marker_lines:
  "marker_lines [red_circle @ lit '' a'', yellow_circle @ lit '' b'', blue_circle @ lit '' c'',
      orange_circle @ lit '' d''] = [0, 1, 2, 3]"
  by (simp add: marker_lines_def has_marker_def lit_def glyphs upt_rec)

lemma three_lines:
  "output_lines \<lparr>returncode = 1,
      stdout = red_circle @ lit '' recieve'' @ newline @ light_bulb @ lit '' receive'' @ newline
        @ orange_circle @ lit '' TODO'',
      stderr = []\<rparr>
   = [red_circle @ lit '' recieve'', light_bulb @ lit '' receive'', orange_circle @ lit '' TODO'']"
  by (simp add: output_lines_def py_split.simps lit_def glyphs)

lemma three_marker_lines:
  "marker_lines [red_circle @ lit '' recieve'', light_bulb @ lit '' receive'',
      orange_circle @ lit '' TODO''] = [0, 2]"
  by (simp add: marker_lines_def has_marker_def lit_def glyphs upt_rec)

lemma mixed_lines:
  "output_lines \<lparr>returncode = 1,
      stdout = orange_circle @ lit '' a '' @ red_circle @ lit '' b'' @ newline
        @ blue_circle @ yellow_circle @ lit ''c'' @ newline,
      stderr = orange_circle @ blue_circle\<rparr>
   = [orange_circle @ lit '' a '' @ red_circle @ lit '' b'',
      blue_circle @ yellow_circle @ lit ''c'', orange_circle @ blue_circle]"
  by (simp add: output_lines_def py_split.simps lit_def glyphs)

lemma mixed_marker_lines:
  "marker_lines [orange_circle @ lit '' a '' @ red_circle @ lit '' b'',
      blue_circle @ yellow_circle @ lit ''c'', orange_circle @ blue_circle] = [0, 1, 2]"
  by (simp add: marker_lines_def has_marker_def lit_def glyphs upt_rec)

lemma error_lines:
  "output_lines \<lparr>returncode = 1, stdout = [], stderr = lit ''Error: Cannot find module''\<rparr>
   = [lit ''Error: Cannot find module'']"
  by (simp add: output_lines_def py_split.simps lit_def glyphs)

lemma error_marker_lines: "marker_lines [lit ''Error: Cannot find module''] = []"
  by (simp add: marker_lines_def has_marker_def lit_def glyphs upt_rec)

section \<open>The exit status decides the status\<close>

text \<open>
  C1. Whenever the validator subprocess completes: with exit status 0 the returned dict has
  status \<open>pass\<close> and an empty list of issues; with any other exit status it has status
  \<open>fail\<close>.
\<close>

theorem exit_status_decides_status:
  "(returncode result = 0 \<longrightarrow>
      result_get (validate_content_tool content filename (Inr result)) ''status''
        = Some (PStr (lit ''pass'')) \<and>
      result_get (validate_content_tool content filename (Inr result)) ''issues''
        = Some (PList [])) \<and>
   (returncode result \<noteq> 0 \<longrightarrow>
      result_get (validate_content_tool content filename (Inr result)) ''status''
        = Some (PStr (lit ''fail'')))"
  by (simp add: validate_content_tool_def result_get_def Let_def)

text \<open>C1 at an exit status 0 and at an exit status 1.\<close>

theorem exit_status_decides_status_witness:
  "result_get (validate_content_tool (lit ''ok'') (lit ''a.md'')
      (Inr \<lparr>returncode = 0, stdout = [], stderr = []\<rparr>)) ''status''
     = Some (PStr (lit ''pass'')) \<and>
   result_get (validate_content_tool (lit ''ok'') (lit ''a.md'')
      (Inr \<lparr>returncode = 0, stdout = [], stderr = []\<rparr>)) ''issues'' = Some (PList []) \<and>
   result_get (validate_content_tool (lit ''teh'') (lit ''a.md'')
      (Inr \<lparr>returncode = 1, stdout = red_circle @ lit '' teh'', stderr = []\<rparr>)) ''status''
     = Some (PStr (lit ''fail''))"
  using exit_status_decides_status
          [of "\<lparr>returncode = 0, stdout = [], stderr = []\<rparr>" "lit ''ok''" "lit ''a.md''"]
        exit_status_decides_status
          [of "\<lparr>returncode = 1, stdout = red_circle @ lit '' teh'', stderr = []\<rparr>"
              "lit ''teh''" "lit ''a.md''"]
  by simp

section \<open>Status and issues\<close>

text \<open>
  C2 says that the status is \<open>fail\<close> exactly when the list of issues is non-empty. It is
  not so: the status comes from the exit status, the issues from the marker lines. A
  subprocess that exits with status 1 and prints nothing gives status \<open>fail\<close> with an
  empty list of issues.
\<close>

theorem fail_with_no_issues_counterexample:
  "result_get (validate_content_tool (lit ''ok'') (lit ''content.md'')
      (Inr \<lparr>returncode = 1, stdout = [], stderr = []\<rparr>)) ''status''
     = Some (PStr (lit ''fail'')) \<and>
   result_get (validate_content_tool (lit ''ok'') (lit ''content.md'')
      (Inr \<lparr>returncode = 1, stdout = [], stderr = []\<rparr>)) ''issues'' = Some (PList [])"
  by (simp add: eval_rules)

text \<open>
  C2, amended. Whenever the subprocess completes, the returned dict has a list of issues;
  when that list is non-empty the status is \<open>fail\<close>, and when the status is \<open>pass\<close> the
  list is empty.
\<close>

theorem issues_imply_fail:
  "\<exists>issues.
     result_get (validate_content_tool content filename (Inr result)) ''issues''
       = Some (PList issues) \<and>
     (issues \<noteq> [] \<longrightarrow>
        result_get (validate_content_tool content filename (Inr result)) ''status''
          = Some (PStr (lit ''fail''))) \<and>
     (result_get (validate_content_tool content filename (Inr result)) ''status''
          = Some (PStr (lit ''pass'')) \<longrightarrow> issues = [])"
  by (simp add: validate_content_tool_def result_get_def Let_def lit_pass_fail [symmetric])

text \<open>The amended C2 at a report with one marker line and at a clean run.\<close>

theorem issues_imply_fail_witness:
  "(\<exists>issues.
      result_get (validate_content_tool (lit ''teh'') (lit ''a.md'')
        (Inr \<lparr>returncode = 1, stdout = red_circle @ lit '' teh'', stderr = []\<rparr>)) ''issues''
        = Some (PList issues) \<and> issues \<noteq> [] \<and>
      result_get (validate_content_tool (lit ''teh'') (lit ''a.md'')
        (Inr \<lparr>returncode = 1, stdout = red_circle @ lit '' teh'', stderr = []\<rparr>)) ''status''
        = Some (PStr (lit ''fail''))) \<and>
   result_get (validate_content_tool (lit ''ok'') (lit ''a.md'')
        (Inr \<lparr>returncode = 0, stdout = [], stderr = []\<rparr>)) ''status''
        = Some (PStr (lit ''pass'')) \<and>
   result_get (validate_content_tool (lit ''ok'') (lit ''a.md'')
        (Inr \<lparr>returncode = 0, stdout = [], stderr = []\<rparr>)) ''issues'' = Some (PList [])"
proof -
  let ?A = "validate_content_tool (lit ''teh'') (lit ''a.md'')
        (Inr \<lparr>returncode = 1, stdout = red_circle @ lit '' teh'', stderr = []\<rparr>)"
  let ?B = "validate_content_tool (lit ''ok'') (lit ''a.md'')
        (Inr \<lparr>returncode = 0, stdout = [], stderr = []\<rparr>)"
  have a: "\<exists>d. result_get ?A ''issues'' = Some (PList [d])"
    by (simp add: eval_rules)
  have b: "result_get ?B ''status'' = Some (PStr (lit ''pass''))"
    by (simp add: validate_content_tool_def result_get_def)
  from a obtain d where d: "result_get ?A ''issues'' = Some (PList [d])" ..
  from issues_imply_fail [of "lit ''teh''" "lit ''a.md''"
      "\<lparr>returncode = 1, stdout = red_circle @ lit '' teh'', stderr = []\<rparr>"] d
  have 1: "result_get ?A ''status'' = Some (PStr (lit ''fail''))" by auto
  from issues_imply_fail [of "lit ''ok''" "lit ''a.md''"
      "\<lparr>returncode = 0, stdout = [], stderr = []\<rparr>"] b
  have 2: "result_get ?B ''issues'' = Some (PList [])" by auto
  from d 1 b 2 show ?thesis by simp
qed

section \<open>Markers and severities\<close>

text \<open>
  C3. After a non-zero exit, take the \<open>k\<close>-th output line that holds a severity marker.
  If it holds only the red circle, the \<open>k\<close>-th returned issue has severity \<open>critical\<close>;
  only the yellow circle, \<open>high\<close>; only the blue circle, \<open>medium\<close>; only the orange
  circle, \<open>low\<close>. The four markers differ from one another and so do the four severities.
\<close>

theorem marker_decides_severity:
  assumes "returncode result \<noteq> 0"
    and "lines = output_lines result"
    and "k < length (marker_lines lines)"
    and "line = lines ! (marker_lines lines ! k)"
  shows "\<exists>issues.
     result_get (validate_content_tool content filename (Inr result)) ''issues''
       = Some (PList issues) \<and> k < length issues \<and>
     (py_in red_circle line \<and> \<not> py_in yellow_circle line \<and> \<not> py_in blue_circle line \<and>
        \<not> py_in orange_circle line \<longrightarrow>
          dict_get (issues ! k) ''severity'' = Some (PStr (lit ''critical''))) \<and>
     (\<not> py_in red_circle line \<and> py_in yellow_circle line \<and> \<not> py_in blue_circle line \<and>
        \<not> py_in orange_circle line \<longrightarrow>
          dict_get (issues ! k) ''severity'' = Some (PStr (lit ''high''))) \<and>
     (\<not> py_in red_circle line \<and> \<not> py_in yellow_circle line \<and> py_in blue_circle line \<and>
        \<not> py_in orange_circle line \<longrightarrow>
          dict_get (issues ! k) ''severity'' = Some (PStr (lit ''medium''))) \<and>
     (\<not> py_in red_circle line \<and> \<not> py_in yellow_circle line \<and> \<not> py_in blue_circle line \<and>
        py_in orange_circle line \<longrightarrow>
          dict_get (issues ! k) ''severity'' = Some (PStr (lit ''low''))) \<and>
     distinct [red_circle, yellow_circle, blue_circle, orange_circle] \<and>
     distinct [lit ''critical'', lit ''high'', lit ''medium'', lit ''low'']"
proof -
  from kth_issue [OF assms(1-3), of content filename] obtain issues where
    i: "result_get (validate_content_tool content filename (Inr result)) ''issues''
          = Some (PList issues)"
    and l: "length issues = length (marker_lines lines)"
    and k: "issues ! k = issue lines (marker_lines lines ! k) line"
    using assms(4) by auto
  have d: "distinct [lit ''critical'', lit ''high'', lit ''medium'', lit ''low'']"
    by (simp add: lit_def)
  have g: "distinct [red_circle, yellow_circle, blue_circle, orange_circle]"
    by (simp add: glyphs)
  have s: "dict_get (issues ! k) ''severity'' = Some (PStr (severity line))"
    by (simp add: k issue_severity)
  from i l assms(3) d g show ?thesis
    by (intro exI [of _ issues]) (simp add: s severity_def)
qed

text \<open>C3 on a report of four lines, one marker each, split over the two streams.\<close>

theorem marker_decides_severity_witness:
  "\<exists>issues.
     result_get (validate_content_tool (lit ''doc'') (lit ''a.md'')
       (Inr \<lparr>returncode = 1,
          stdout = red_circle @ lit '' a'' @ newline @ yellow_circle @ lit '' b'' @ newline,
          stderr = blue_circle @ lit '' c'' @ newline @ orange_circle @ lit '' d''\<rparr>)) ''issues''
       = Some (PList issues) \<and>
     dict_get (issues ! 0) ''severity'' = Some (PStr (lit ''critical'')) \<and>
     dict_get (issues ! 1) ''severity'' = Some (PStr (lit ''high'')) \<and>
     dict_get (issues ! 2) ''severity'' = Some (PStr (lit ''medium'')) \<and>
     dict_get (issues ! 3) ''severity'' = Some (PStr (lit ''low''))"
proof -
  let ?r = "\<lparr>returncode = 1,
          stdout = red_circle @ lit '' a'' @ newline @ yellow_circle @ lit '' b'' @ newline,
          stderr = blue_circle @ lit '' c'' @ newline @ orange_circle @ lit '' d''\<rparr>"
  let ?ls = "[red_circle @ lit '' a'', yellow_circle @ lit '' b'', blue_circle @ lit '' c'',
      orange_circle @ lit '' d'']"
  have rc: "returncode ?r \<noteq> 0" by simp
  have ls: "?ls = output_lines ?r" by (simp only: four_lines)
  have n: "0 < length (marker_lines ?ls)" "1 < length (marker_lines ?ls)"
    "2 < length (marker_lines ?ls)" "3 < length (marker_lines ?ls)"
    by (simp_all add: four_marker_lines)
  have l: "?ls ! 0 = ?ls ! (marker_lines ?ls ! 0)" "?ls ! 1 = ?ls ! (marker_lines ?ls ! 1)"
    "?ls ! 2 = ?ls ! (marker_lines ?ls ! 2)" "?ls ! 3 = ?ls ! (marker_lines ?ls ! 3)"
    by (simp_all add: four_marker_lines)
  from marker_decides_severity [OF rc ls n(1) l(1), of "lit ''doc''" "lit ''a.md''"]
       marker_decides_severity [OF rc ls n(2) l(2), of "lit ''doc''" "lit ''a.md''"]
       marker_decides_severity [OF rc ls n(3) l(3), of "lit ''doc''" "lit ''a.md''"]
       marker_decides_severity [OF rc ls n(4) l(4), of "lit ''doc''" "lit ''a.md''"]
  show ?thesis
    by (auto simp: lit_def glyphs)
qed

text \<open>
  C9. After a non-zero exit, for the \<open>k\<close>-th output line that holds a severity marker,
  whatever other markers it holds: a red circle gives \<open>critical\<close>; otherwise a yellow
  circle gives \<open>high\<close>; otherwise a blue circle gives \<open>medium\<close>. The message is the line
  with every occurrence of the four markers taken out, wherever it stands, and then
  stripped; none of the four markers occurs in it.
\<close>

theorem marker_precedence:
  assumes "returncode result \<noteq> 0"
    and "lines = output_lines result"
    and "k < length (marker_lines lines)"
    and "line = lines ! (marker_lines lines ! k)"
  shows "\<exists>issues message.
     result_get (validate_content_tool content filename (Inr result)) ''issues''
       = Some (PList issues) \<and> k < length issues \<and>
     (py_in red_circle line \<longrightarrow>
        dict_get (issues ! k) ''severity'' = Some (PStr (lit ''critical''))) \<and>
     (\<not> py_in red_circle line \<and> py_in yellow_circle line \<longrightarrow>
        dict_get (issues ! k) ''severity'' = Some (PStr (lit ''high''))) \<and>
     (\<not> py_in red_circle line \<and> \<not> py_in yellow_circle line \<and> py_in blue_circle line \<longrightarrow>
        dict_get (issues ! k) ''severity'' = Some (PStr (lit ''medium''))) \<and>
     dict_get (issues ! k) ''message'' = Some (PStr message) \<and>
     message = py_strip (filter (\<lambda>c. [c] \<notin>
        {red_circle, yellow_circle, blue_circle, orange_circle}) line) \<and>
     \<not> py_in red_circle message \<and> \<not> py_in yellow_circle message \<and>
     \<not> py_in blue_circle message \<and> \<not> py_in orange_circle message"
proof -
  from kth_issue [OF assms(1-3), of content filename] obtain issues where
    r: "result_get (validate_content_tool content filename (Inr result)) ''issues''
          = Some (PList issues)"
    and l: "length issues = length (marker_lines lines)"
    and k: "issues ! k = issue lines (marker_lines lines ! k) line"
    using assms(4) by auto
  let ?m = "py_strip (filter (\<lambda>c. [c] \<notin>
        {red_circle, yellow_circle, blue_circle, orange_circle}) line)"
  have m: "dict_get (issues ! k) ''message'' = Some (PStr ?m)"
    unfolding k by (rule issue_message)
  have s: "dict_get (issues ! k) ''severity'' = Some (PStr (severity line))"
    by (simp add: k issue_severity)
  from r l assms(3) message_without_glyphs [OF refl, of line] show ?thesis
    by (intro exI [of _ issues] exI [of _ ?m]) (simp add: s m severity_def)
qed

text \<open>
  C9 on three lines with two markers each: orange with red inside the text, blue with
  yellow, orange with blue.
\<close>

theorem marker_precedence_witness:
  "\<exists>issues.
     result_get (validate_content_tool (lit ''doc'') (lit ''a.md'')
       (Inr \<lparr>returncode = 1,
          stdout = orange_circle @ lit '' a '' @ red_circle @ lit '' b'' @ newline
            @ blue_circle @ yellow_circle @ lit ''c'' @ newline,
          stderr = orange_circle @ blue_circle\<rparr>)) ''issues'' = Some (PList issues) \<and>
     dict_get (issues ! 0) ''severity'' = Some (PStr (lit ''critical'')) \<and>
     dict_get (issues ! 0) ''message'' = Some (PStr (lit ''a  b'')) \<and>
     dict_get (issues ! 1) ''severity'' = Some (PStr (lit ''high'')) \<and>
     dict_get (issues ! 1) ''message'' = Some (PStr (lit ''c'')) \<and>
     dict_get (issues ! 2) ''severity'' = Some (PStr (lit ''medium'')) \<and>
     dict_get (issues ! 2) ''message'' = Some (PStr [])"
proof -
  let ?r = "\<lparr>returncode = 1,
          stdout = orange_circle @ lit '' a '' @ red_circle @ lit '' b'' @ newline
            @ blue_circle @ yellow_circle @ lit ''c'' @ newline,
          stderr = orange_circle @ blue_circle\<rparr>"
  let ?ls = "[orange_circle @ lit '' a '' @ red_circle @ lit '' b'',
      blue_circle @ yellow_circle @ lit ''c'', orange_circle @ blue_circle]"
  have rc: "returncode ?r \<noteq> 0" by simp
  have ls: "?ls = output_lines ?r" by (simp only: mixed_lines)
  have n: "0 < length (marker_lines ?ls)" "1 < length (marker_lines ?ls)"
    "2 < length (marker_lines ?ls)"
    by (simp_all add: mixed_marker_lines)
  have l: "?ls ! 0 = ?ls ! (marker_lines ?ls ! 0)" "?ls ! 1 = ?ls ! (marker_lines ?ls ! 1)"
    "?ls ! 2 = ?ls ! (marker_lines ?ls ! 2)"
    by (simp_all add: mixed_marker_lines)
  from marker_precedence [OF rc ls n(1) l(1), of "lit ''doc''" "lit ''a.md''"]
       marker_precedence [OF rc ls n(2) l(2), of "lit ''doc''" "lit ''a.md''"]
       marker_precedence [OF rc ls n(3) l(3), of "lit ''doc''" "lit ''a.md''"]
  show ?thesis
    by (auto simp: lit_def glyphs py_strip_def isspace_def)
qed

section \<open>Suggestions\<close>

text \<open>
  C4. After a non-zero exit, let line \<open>i\<close> be the \<open>k\<close>-th output line that holds a severity
  marker. The \<open>k\<close>-th returned issue has a suggestion other than \<open>None\<close> exactly when line
  \<open>i + 1\<close> exists and holds the light bulb; the suggestion is then line \<open>i + 1\<close> with the
  light bulbs taken out, stripped. No line but \<open>i + 1\<close> enters the suggestion.
\<close>

theorem suggestion_from_next_line:
  assumes "returncode result \<noteq> 0"
    and "lines = output_lines result"
    and "k < length (marker_lines lines)"
    and "i = marker_lines lines ! k"
  shows "\<exists>issues.
     result_get (validate_content_tool content filename (Inr result)) ''issues''
       = Some (PList issues) \<and> k < length issues \<and>
     ((dict_get (issues ! k) ''suggestion'' \<noteq> Some PNone) =
        (i + 1 < length lines \<and> py_in light_bulb (lines ! (i + 1)))) \<and>
     dict_get (issues ! k) ''suggestion'' =
       Some (if i + 1 < length lines \<and> py_in light_bulb (lines ! (i + 1))
             then PStr (py_strip (filter (\<lambda>c. [c] \<noteq> light_bulb) (lines ! (i + 1))))
             else PNone)"
proof -
  from kth_issue [OF assms(1-3), of content filename] obtain issues where
    r: "result_get (validate_content_tool content filename (Inr result)) ''issues''
          = Some (PList issues)"
    and l: "length issues = length (marker_lines lines)"
    and k: "issues ! k = issue lines i (lines ! i)"
    using assms(4) by auto
  from r l assms(3) show ?thesis
    by (intro exI [of _ issues]) (simp add: k issue_suggestion)
qed

text \<open>
  C4 on a report of three lines: a finding followed by its suggestion line, then a finding
  on the last line.
\<close>

theorem suggestion_from_next_line_witness:
  "\<exists>issues.
     result_get (validate_content_tool (lit ''recieve TODO'') (lit ''a.md'')
       (Inr \<lparr>returncode = 1,
          stdout = red_circle @ lit '' recieve'' @ newline @ light_bulb @ lit '' receive''
            @ newline @ orange_circle @ lit '' TODO'',
          stderr = []\<rparr>)) ''issues'' = Some (PList issues) \<and>
     dict_get (issues ! 0) ''suggestion'' = Some (PStr (lit ''receive'')) \<and>
     dict_get (issues ! 1) ''suggestion'' = Some PNone"
proof -
  let ?r = "\<lparr>returncode = 1,
          stdout = red_circle @ lit '' recieve'' @ newline @ light_bulb @ lit '' receive''
            @ newline @ orange_circle @ lit '' TODO'',
          stderr = []\<rparr>"
  let ?ls = "[red_circle @ lit '' recieve'', light_bulb @ lit '' receive'',
      orange_circle @ lit '' TODO'']"
  have rc: "returncode ?r \<noteq> 0" by simp
  have ls: "?ls = output_lines ?r" by (simp only: three_lines)
  have n: "0 < length (marker_lines ?ls)" "1 < length (marker_lines ?ls)"
    by (simp_all add: three_marker_lines)
  have i: "0 = marker_lines ?ls ! 0" "2 = marker_lines ?ls ! 1"
    by (simp_all add: three_marker_lines)
  from suggestion_from_next_line [OF rc ls n(1) i(1), of "lit ''recieve TODO''" "lit ''a.md''"]
       suggestion_from_next_line [OF rc ls n(2) i(2), of "lit ''recieve TODO''" "lit ''a.md''"]
  show ?thesis
    by (auto simp: lit_def glyphs py_strip_def isspace_def)
qed

text \<open>
  C10. After a non-zero exit, the \<open>k\<close>-th returned issue always has the key
  \<open>suggestion\<close>; when the line below its marker line is missing or holds no light bulb, the
  key is bound to \<open>None\<close>.
\<close>

theorem suggestion_key_always_present:
  assumes "returncode result \<noteq> 0"
    and "lines = output_lines result"
    and "k < length (marker_lines lines)"
    and "i = marker_lines lines ! k"
  shows "\<exists>issues.
     result_get (validate_content_tool content filename (Inr result)) ''issues''
       = Some (PList issues) \<and> k < length issues \<and>
     ''suggestion'' \<in> set (dict_keys (issues ! k)) \<and>
     (\<not> (i + 1 < length lines \<and> py_in light_bulb (lines ! (i + 1))) \<longrightarrow>
        dict_get (issues ! k) ''suggestion'' = Some PNone)"
proof -
  from kth_issue [OF assms(1-3), of content filename] obtain issues where
    r: "result_get (validate_content_tool content filename (Inr result)) ''issues''
          = Some (PList issues)"
    and l: "length issues = length (marker_lines lines)"
    and k: "issues ! k = issue lines i (lines ! i)"
    using assms(4) by auto
  from r l assms(3) show ?thesis
    by (intro exI [of _ issues]) (simp add: k issue_suggestion issue_keys)
qed

text \<open>C10 at a finding on the last line of the report, and at one above a plain line.\<close>

theorem suggestion_key_always_present_witness:
  "(\<exists>issues.
     result_get (validate_content_tool (lit ''recieve TODO'') (lit ''a.md'')
       (Inr \<lparr>returncode = 1,
          stdout = red_circle @ lit '' recieve'' @ newline @ light_bulb @ lit '' receive''
            @ newline @ orange_circle @ lit '' TODO'',
          stderr = []\<rparr>)) ''issues'' = Some (PList issues) \<and> 1 < length issues \<and>
     ''suggestion'' \<in> set (dict_keys (issues ! 1)) \<and>
     dict_get (issues ! 1) ''suggestion'' = Some PNone) \<and>
   (\<exists>issues.
     result_get (validate_content_tool (lit ''doc'') (lit ''a.md'')
       (Inr \<lparr>returncode = 1,
          stdout = red_circle @ lit '' a'' @ newline @ yellow_circle @ lit '' b'' @ newline,
          stderr = blue_circle @ lit '' c'' @ newline @ orange_circle @ lit '' d''\<rparr>)) ''issues''
       = Some (PList issues) \<and> 0 < length issues \<and>
     ''suggestion'' \<in> set (dict_keys (issues ! 0)) \<and>
     dict_get (issues ! 0) ''suggestion'' = Some PNone)"
proof -
  let ?r = "\<lparr>returncode = 1,
          stdout = red_circle @ lit '' recieve'' @ newline @ light_bulb @ lit '' receive''
            @ newline @ orange_circle @ lit '' TODO'',
          stderr = []\<rparr>"
  let ?ls = "[red_circle @ lit '' recieve'', light_bulb @ lit '' receive'',
      orange_circle @ lit '' TODO'']"
  have rc: "returncode ?r \<noteq> 0" by simp
  have ls: "?ls = output_lines ?r" by (simp only: three_lines)
  have n: "1 < length (marker_lines ?ls)" by (simp add: three_marker_lines)
  have i: "2 = marker_lines ?ls ! 1" by (simp add: three_marker_lines)
  let ?r' = "\<lparr>returncode = 1,
          stdout = red_circle @ lit '' a'' @ newline @ yellow_circle @ lit '' b'' @ newline,
          stderr = blue_circle @ lit '' c'' @ newline @ orange_circle @ lit '' d''\<rparr>"
  let ?ls' = "[red_circle @ lit '' a'', yellow_circle @ lit '' b'', blue_circle @ lit '' c'',
      orange_circle @ lit '' d'']"
  have rc': "returncode ?r' \<noteq> 0" by simp
  have ls': "?ls' = output_lines ?r'" by (simp only: four_lines)
  have n': "0 < length (marker_lines ?ls')" by (simp add: four_marker_lines)
  have i': "0 = marker_lines ?ls' ! 0" by (simp add: four_marker_lines)
  from suggestion_key_always_present [OF rc ls n i, of "lit ''recieve TODO''" "lit ''a.md''"]
       suggestion_key_always_present [OF rc' ls' n' i', of "lit ''doc''" "lit ''a.md''"]
  show ?thesis
    by (simp add: lit_def glyphs)
qed

section \<open>Order of the issues\<close>

text \<open>
  C7. The lines are those of standard output followed by standard error. After a non-zero
  exit the returned issues are the dicts built at the lines that hold a severity marker,
  one per such line and in the order of these lines (their indices, strictly increasing);
  each dict takes its severity and message from its own line and its suggestion from the
  line below. After exit status 0 the list is empty.
\<close>

theorem issues_in_output_order:
  "result_get (validate_content_tool content filename (Inr result)) ''issues'' =
     Some (PList (if returncode result = 0 then []
                  else map (\<lambda>i. issue (output_lines result) i (output_lines result ! i))
                         (marker_lines (output_lines result)))) \<and>
   output_lines result = py_split (stdout result @ stderr result) newline \<and>
   sorted_wrt (<) (marker_lines (output_lines result)) \<and>
   set (marker_lines (output_lines result)) =
     {i. i < length (output_lines result) \<and> has_marker (output_lines result ! i)}"
proof (cases "returncode result = 0")
  case True
  then show ?thesis
    by (simp add: validate_content_tool_def result_get_def output_lines_def
        marker_lines_sorted marker_lines_set)
next
  case False
  then show ?thesis
    by (simp add: returned_issues output_lines_def marker_lines_sorted marker_lines_set)
qed

text \<open>C7 on the report of three lines: two issues, in the order of their lines.\<close>

theorem issues_in_output_order_witness:
  "result_get (validate_content_tool (lit ''recieve TODO'') (lit ''a.md'')
       (Inr \<lparr>returncode = 1,
          stdout = red_circle @ lit '' recieve'' @ newline @ light_bulb @ lit '' receive''
            @ newline @ orange_circle @ lit '' TODO'',
          stderr = []\<rparr>)) ''issues'' =
     Some (PList
       [PDict [(''severity'', PStr (lit ''critical'')), (''message'', PStr (lit ''recieve'')),
               (''suggestion'', PStr (lit ''receive''))],
        PDict [(''severity'', PStr (lit ''low'')), (''message'', PStr (lit ''TODO'')),
               (''suggestion'', PNone)]])"
proof -
  let ?r = "\<lparr>returncode = 1,
          stdout = red_circle @ lit '' recieve'' @ newline @ light_bulb @ lit '' receive''
            @ newline @ orange_circle @ lit '' TODO'',
          stderr = []\<rparr>"
  let ?ls = "[red_circle @ lit '' recieve'', light_bulb @ lit '' receive'',
      orange_circle @ lit '' TODO'']"
  have e: "map (\<lambda>i. issue ?ls i (?ls ! i)) [0, 2] =
       [PDict [(''severity'', PStr (lit ''critical'')), (''message'', PStr (lit ''recieve'')),
               (''suggestion'', PStr (lit ''receive''))],
        PDict [(''severity'', PStr (lit ''low'')), (''message'', PStr (lit ''TODO'')),
               (''suggestion'', PNone)]]"
    by (simp add: issue_def severity_def py_replace_single py_strip_def isspace_def lit_def
        glyphs)
  from issues_in_output_order [of "lit ''recieve TODO''" "lit ''a.md''" ?r, THEN conjunct1]
  show ?thesis
    unfolding three_lines three_marker_lines e by simp
qed

section \<open>What the caller can tell apart\<close>

text \<open>
  C5 says that a validator that could not run is never reported in the shape of a report
  of findings. It is: when node starts but cannot load the validator script, it exits
  with status 1 and an error text on standard error, and the tool returns the dict of a
  report of findings, with no issue in it. It has the keys, the status and the message
  form of the dict returned for a run that found one issue.
\<close>

theorem could_not_run_reported_as_findings_counterexample:
  "validate_content_tool (lit ''ok'') (lit ''content.md'')
      (Inr \<lparr>returncode = 1, stdout = [], stderr = lit ''Error: Cannot find module''\<rparr>)
     = Inr (PDict [(''status'', PStr (lit ''fail'')), (''issues'', PList []),
         (''message'', PStr (cross_mark @ lit '' Found 0 validation issue(s)''))]) \<and>
   validate_content_tool (lit ''teh'') (lit ''content.md'')
      (Inr \<lparr>returncode = 1, stdout = red_circle @ lit '' teh'', stderr = []\<rparr>)
     = Inr (PDict [(''status'', PStr (lit ''fail'')),
         (''issues'', PList [PDict [(''severity'', PStr (lit ''critical'')),
            (''message'', PStr (lit ''teh'')), (''suggestion'', PNone)]]),
         (''message'', PStr (cross_mark @ lit '' Found 1 validation issue(s)''))])"
  by (simp add: eval_rules)

text \<open>
  C5, amended. The caller can tell three outcomes apart: \<open>subprocess.run\<close> raised, and the
  exception reaches the caller; the subprocess exited with status 0, and the dict with
  status \<open>pass\<close>, no issues and the message of a clean document is returned; the
  subprocess exited with another status, and the dict with status \<open>fail\<close> is returned,
  whose issues are the dicts built at the lines of the output that hold a severity marker,
  in the order of these lines, and whose message gives their number. A validator that
  starts and exits with a non-zero status without validating falls under the third outcome.
\<close>

theorem caller_sees_three_outcomes:
  "validate_content_tool content filename (Inl e) = Inl e \<and>
   (returncode result = 0 \<longrightarrow>
      validate_content_tool content filename (Inr result)
        = Inr (PDict [(''status'', PStr (lit ''pass'')), (''issues'', PList []),
            (''message'', PStr (check_mark @ lit '' No validation issues found''))])) \<and>
   (returncode result \<noteq> 0 \<longrightarrow>
      validate_content_tool content filename (Inr result)
        = Inr (PDict [(''status'', PStr (lit ''fail'')),
            (''issues'', PList (map (\<lambda>i. issue (output_lines result) i (output_lines result ! i))
                                  (marker_lines (output_lines result)))),
            (''message'', PStr (cross_mark @ lit '' Found ''
               @ str_of_nat (length (marker_lines (output_lines result)))
               @ lit '' validation issue(s)''))])) \<and>
   lit ''pass'' \<noteq> lit ''fail''"
  by (simp add: validate_content_tool_def Let_def extract_issues_eq output_lines_def
      lit_pass_fail)

text \<open>
  The amended C5 at an exception, at exit status 0, at exit status 1 with only an error
  text, and at exit status 1 with a report of two findings.
\<close>

theorem caller_sees_three_outcomes_witness:
  "validate_content_tool (lit ''ok'') (lit ''content.md'') (Inl OSError) = Inl OSError \<and>
   validate_content_tool (lit ''ok'') (lit ''content.md'')
      (Inr \<lparr>returncode = 0, stdout = [], stderr = []\<rparr>)
        = Inr (PDict [(''status'', PStr (lit ''pass'')), (''issues'', PList []),
            (''message'', PStr (check_mark @ lit '' No validation issues found''))]) \<and>
   validate_content_tool (lit ''ok'') (lit ''content.md'')
      (Inr \<lparr>returncode = 1, stdout = [], stderr = lit ''Error: Cannot find module''\<rparr>)
        = Inr (PDict [(''status'', PStr (lit ''fail'')), (''issues'', PList []),
            (''message'', PStr (cross_mark @ lit '' Found 0 validation issue(s)''))]) \<and>
   validate_content_tool (lit ''recieve TODO'') (lit ''content.md'')
      (Inr \<lparr>returncode = 1,
          stdout = red_circle @ lit '' recieve'' @ newline @ light_bulb @ lit '' receive''
            @ newline @ orange_circle @ lit '' TODO'',
          stderr = []\<rparr>)
        = Inr (PDict [(''status'', PStr (lit ''fail'')),
            (''issues'', PList
               [PDict [(''severity'', PStr (lit ''critical'')),
                       (''message'', PStr (lit ''recieve'')),
                       (''suggestion'', PStr (lit ''receive''))],
                PDict [(''severity'', PStr (lit ''low'')), (''message'', PStr (lit ''TODO'')),
                       (''suggestion'', PNone)]]),
            (''message'', PStr (cross_mark @ lit '' Found 2 validation issue(s)''))])"
proof -
  let ?r0 = "\<lparr>returncode = 0, stdout = [], stderr = []\<rparr>"
  let ?r1 = "\<lparr>returncode = 1, stdout = [], stderr = lit ''Error: Cannot find module''\<rparr>"
  let ?r2 = "\<lparr>returncode = 1,
          stdout = red_circle @ lit '' recieve'' @ newline @ light_bulb @ lit '' receive''
            @ newline @ orange_circle @ lit '' TODO'',
          stderr = []\<rparr>"
  let ?ls = "[red_circle @ lit '' recieve'', light_bulb @ lit '' receive'',
      orange_circle @ lit '' TODO'']"
  have e: "map (\<lambda>i. issue ?ls i (?ls ! i)) [0, 2] =
       [PDict [(''severity'', PStr (lit ''critical'')), (''message'', PStr (lit ''recieve'')),
               (''suggestion'', PStr (lit ''receive''))],
        PDict [(''severity'', PStr (lit ''low'')), (''message'', PStr (lit ''TODO'')),
               (''suggestion'', PNone)]]"
    by (simp add: issue_def severity_def py_replace_single py_strip_def isspace_def lit_def
        glyphs)
  have d: "str_of_nat 0 = lit ''0''" "str_of_nat (Suc (Suc 0)) = lit ''2''"
    by (simp_all add: str_of_nat.simps lit_def)
  have rc: "returncode ?r0 = 0" "returncode ?r1 \<noteq> 0" "returncode ?r2 \<noteq> 0" by simp_all
  note t = caller_sees_three_outcomes [of "lit ''ok''" "lit ''content.md''" OSError]
  from t [of ?r0] rc(1)
  have a: "validate_content_tool (lit ''ok'') (lit ''content.md'') (Inl OSError) = Inl OSError"
    and b: "validate_content_tool (lit ''ok'') (lit ''content.md'') (Inr ?r0)
        = Inr (PDict [(''status'', PStr (lit ''pass'')), (''issues'', PList []),
            (''message'', PStr (check_mark @ lit '' No validation issues found''))])"
    by blast+
  from t [of ?r1] rc(2)
  have c: "validate_content_tool (lit ''ok'') (lit ''content.md'') (Inr ?r1)
        = Inr (PDict [(''status'', PStr (lit ''fail'')), (''issues'', PList []),
            (''message'', PStr (cross_mark @ lit '' Found 0 validation issue(s)''))])"
    unfolding error_lines error_marker_lines by (simp add: d lit_def)
  from caller_sees_three_outcomes [of "lit ''recieve TODO''" "lit ''content.md''" OSError ?r2]
    rc(3)
  have f: "validate_content_tool (lit ''recieve TODO'') (lit ''content.md'') (Inr ?r2)
        = Inr (PDict [(''status'', PStr (lit ''fail'')),
            (''issues'', PList (map (\<lambda>i. issue ?ls i (?ls ! i)) [0, 2])),
            (''message'', PStr (cross_mark @ lit '' Found 2 validation issue(s)''))])"
    unfolding three_lines three_marker_lines by (simp add: d lit_def)
  from a b c f show ?thesis unfolding e by simp
qed

section \<open>What the result depends on\<close>

text \<open>
  C6. The file name does not enter the result: with the same content and the same outcome
  of the subprocess, any two file names give the same returned value.
\<close>

theorem filename_not_read:
  "validate_content_tool content filename1 run = validate_content_tool content filename2 run"
  by (simp add: validate_content_tool_def)

theorem filename_not_read_witness:
  "validate_content_tool (lit ''teh'') (lit ''content.md'')
      (Inr \<lparr>returncode = 1, stdout = red_circle @ lit '' teh'', stderr = []\<rparr>)
   = validate_content_tool (lit ''teh'') (lit ''README.md'')
      (Inr \<lparr>returncode = 1, stdout = red_circle @ lit '' teh'', stderr = []\<rparr>)"
  by (rule filename_not_read)

text \<open>
  C8. Two invocations that observe the same outcome of the subprocess return the same
  value: the same status, the same issues with their severities, messages and
  suggestions, and the same summary message.
\<close>

theorem same_outcome_same_result:
  "validate_content_tool content1 filename1 run = validate_content_tool content2 filename2 run"
  by (simp add: validate_content_tool_def)

theorem same_outcome_same_result_witness:
  "validate_content_tool (lit ''teh'') (lit ''content.md'')
      (Inr \<lparr>returncode = 1, stdout = red_circle @ lit '' teh'', stderr = []\<rparr>)
   = validate_content_tool (lit ''teh cat'') (lit ''README.md'')
      (Inr \<lparr>returncode = 1, stdout = red_circle @ lit '' teh'', stderr = []\<rparr>)"
  by (rule same_outcome_same_result)

end
